theory Spec2Isabelle
  imports Main "HOL-Library.Word"
begin

section \<open>MicroFlo: the runtime header \<open>microflo.h\<close> and the Stellaris target\<close>

text \<open>
  The development follows \<open>microflo/microflo.h\<close> (packets, the network, the IO interface,
  the host protocol parser) and the Stellaris IO implementation. Bodies that the header
  only declares are modelled from the specification and are marked as such where they
  are defined.
\<close>

subsection \<open>Compile-time budgets and integer types\<close>

definition MICROFLO_MAX_PORTS :: int where
  "MICROFLO_MAX_PORTS = 255"

text \<open>The default of \<open>MICROFLO_MAX_NODES\<close> (no \<open>MICROFLO_NODE_LIMIT\<close> given).\<close>

definition MICROFLO_MAX_NODES :: int where
  "MICROFLO_MAX_NODES = 50"

text \<open>The default of \<open>MICROFLO_MAX_MESSAGES\<close> (no \<open>MICROFLO_MESSAGE_LIMIT\<close> given).\<close>

definition MICROFLO_MAX_MESSAGES :: int where
  "MICROFLO_MAX_MESSAGES = 50"

text \<open>\<open>typedef uint8_t NodeId\<close>, \<open>typedef int8_t PortId\<close> (read with \<open>sint\<close>),
  \<open>typedef long PinId\<close> on the Stellaris; \<open>long\<close> has 32 bits there.\<close>

type_synonym NodeId = "8 word"
type_synonym PortId = "8 word"
type_synonym long = "32 word"
type_synonym PinId = long

subsection \<open>Packet\<close>

text \<open>
  Modelled from the spec: \<open>enum Msg\<close> is declared in \<open>commandformat.h\<close>, which is not
  part of the sources. The enumerators are the packet kinds the header and the
  specification name; the integer value of each enumerator is not known, so the functions
  that compare kinds by value take the numbering as a parameter.
\<close>

datatype Msg =
    MsgInvalid
  | MsgSetup
  | MsgTick
  | MsgVoid
  | MsgByte
  | MsgBoolean
  | MsgInteger
  | MsgFloat
  | MsgAscii
  | MsgBracketStart
  | MsgBracketEnd
  | MsgMaxDefined

text \<open>\<open>union PacketData\<close>: one slot, read through the member that was written. A float
  is kept as its 32-bit pattern. \<open>NoData\<close> is the slot a kind-only constructor leaves
  unwritten.\<close>

datatype PacketData =
    NoData
  | Boolean bool
  | Ch char
  | Byte "8 word"
  | Lng long
  | Flt "32 word"

record Packet =
  data :: PacketData
  msg :: Msg

definition Packet_void :: Packet where
  "Packet_void = \<lparr>data = NoData, msg = MsgVoid\<rparr>"

definition Packet_bool :: "bool \<Rightarrow> Packet" where
  "Packet_bool b = \<lparr>data = Boolean b, msg = MsgBoolean\<rparr>"

definition Packet_char :: "char \<Rightarrow> Packet" where
  "Packet_char c = \<lparr>data = Ch c, msg = MsgAscii\<rparr>"

definition Packet_byte :: "8 word \<Rightarrow> Packet" where
  "Packet_byte by = \<lparr>data = Byte by, msg = MsgByte\<rparr>"

definition Packet_long :: "long \<Rightarrow> Packet" where
  "Packet_long l = \<lparr>data = Lng l, msg = MsgInteger\<rparr>"

definition Packet_float :: "32 word \<Rightarrow> Packet" where
  "Packet_float f = \<lparr>data = Flt f, msg = MsgFloat\<rparr>"

definition Packet_msg :: "Msg \<Rightarrow> Packet" where
  "Packet_msg m = \<lparr>data = NoData, msg = m\<rparr>"

definition type :: "Packet \<Rightarrow> Msg" where
  "type p = msg p"

text \<open>\<open>msg > MsgInvalid && msg < MsgMaxDefined\<close>, on the enumerators' values \<open>v\<close>.\<close>

definition isValid :: "(Msg \<Rightarrow> int) \<Rightarrow> Packet \<Rightarrow> bool" where
  "isValid v p = (v (msg p) > v MsgInvalid \<and> v (msg p) < v MsgMaxDefined)"

definition isSetup :: "Packet \<Rightarrow> bool" where
  "isSetup p = (msg p = MsgSetup)"

definition isTick :: "Packet \<Rightarrow> bool" where
  "isTick p = (msg p = MsgTick)"

definition isSpecial :: "Packet \<Rightarrow> bool" where
  "isSpecial p = (isSetup p \<or> isTick p)"

definition isVoid :: "Packet \<Rightarrow> bool" where
  "isVoid p = (msg p = MsgVoid)"

definition isStartBracket :: "Packet \<Rightarrow> bool" where
  "isStartBracket p = (msg p = MsgBracketStart)"

definition isEndBracket :: "Packet \<Rightarrow> bool" where
  "isEndBracket p = (msg p = MsgBracketEnd)"

definition isData :: "(Msg \<Rightarrow> int) \<Rightarrow> Packet \<Rightarrow> bool" where
  "isData v p = (isValid v p \<and> \<not> isSpecial p)"

definition isBool :: "Packet \<Rightarrow> bool" where
  "isBool p = (msg p = MsgBoolean)"

definition isByte :: "Packet \<Rightarrow> bool" where
  "isByte p = (msg p = MsgByte)"

definition isAscii :: "Packet \<Rightarrow> bool" where
  "isAscii p = (msg p = MsgAscii)"

definition isInteger :: "Packet \<Rightarrow> bool" where
  "isInteger p = (msg p = MsgInteger)"

definition isFloat :: "Packet \<Rightarrow> bool" where
  "isFloat p = (msg p = MsgFloat)"

definition isNumber :: "Packet \<Rightarrow> bool" where
  "isNumber p = (isInteger p \<or> isFloat p)"

subsection \<open>Node ids\<close>

text \<open>\<open>static const MicroFlo::NodeId firstNodeId = 1; // 0=reserved: no-parent-node\<close>\<close>

definition firstNodeId :: NodeId where
  "firstNodeId = 1"

subsection \<open>Debug events and the handler interfaces\<close>

text \<open>
  Modelled from the spec: \<open>enum DebugLevel\<close> is declared in \<open>commandformat.h\<close>, which is
  not part of the sources. The specification lists the levels as Off, Error, Info and
  finer ones, in the order of growing verbosity; \<open>DebugLevelError\<close> is the enumerator the
  Stellaris target uses.
\<close>

datatype DebugLevel =
    DebugLevelOff
  | DebugLevelError
  | DebugLevelInfo
  | DebugLevelFiner nat

text \<open>
  Modelled from the spec: the order that \<open>level <= debugLevel\<close> compares, which is the
  order of the enumerators in the absent \<open>commandformat.h\<close>. The specification lists the
  levels by growing verbosity ("monotonically controlling verbosity").
\<close>

fun levelValue :: "DebugLevel \<Rightarrow> int" where
  "levelValue DebugLevelOff = 0"
| "levelValue DebugLevelError = 1"
| "levelValue DebugLevelInfo = 2"
| "levelValue (DebugLevelFiner n) = 3 + int n"

text \<open>
  Modelled from the spec: \<open>enum DebugId\<close> is declared in \<open>commandformat.h\<close>, which is
  not part of the sources. The enumerators are the ids of the specification's error
  taxonomy; \<open>DebugIoOperationNotImplemented\<close> is the one the Stellaris target uses.
\<close>

datatype DebugId =
    DebugNodeUpperLimitReached
  | DebugMessageQueueFull
  | DebugSubgraphPortOverflow
  | DebugCommandParseError
  | DebugUnknownOpcode
  | DebugMagicMismatch
  | DebugNotRunning
  | DebugNetworkAlreadyRunning
  | DebugIoOperationNotImplemented
  | DebugInvalidPacket
  | DebugInvalidNodeId

text \<open>\<open>enum Network::State\<close>, with \<open>Invalid = -1\<close>.\<close>

datatype State = Invalid | Stopped | Running

text \<open>\<open>struct Message\<close>. A pointer to a component of the network is represented by the
  id of the node, the null pointer by \<open>None\<close>.\<close>

record Message =
  target :: "NodeId option"
  targetPort :: PortId
  pkg :: Packet

text \<open>
  \<open>DebugHandler\<close> and \<open>NetworkNotificationHandler\<close> are interfaces of pure virtual
  methods. A handler object is represented by the calls it has received, in order; a
  handler pointer is an option, \<open>None\<close> for the null pointer.
\<close>

datatype Notification =
    EmitDebug DebugLevel DebugId
  | DebugChanged DebugLevel
  | PacketSent int Message "NodeId option" PortId
  | PacketDelivered int Message
  | NodeAdded NodeId NodeId
  | NodesConnected "NodeId option" PortId "NodeId option" PortId
  | NetworkStateChanged State
  | SubgraphConnected bool NodeId PortId NodeId PortId
  | PortSubscriptionChanged NodeId PortId bool

type_synonym Handler = "Notification list"

text \<open>The macro \<open>MICROFLO_DEBUG(handler, level, code)\<close>:
  \<open>if (handler) { handler->emitDebug(level, code); }\<close>.\<close>

definition MICROFLO_DEBUG :: "Handler option \<Rightarrow> DebugLevel \<Rightarrow> DebugId \<Rightarrow> Handler option" where
  "MICROFLO_DEBUG handler level code =
     (case handler of
        None \<Rightarrow> None
      | Some h \<Rightarrow> Some (h @ [EmitDebug level code]))"

subsection \<open>Components and the network\<close>

text \<open>\<open>struct Connection\<close> (target, targetPort, subscribed).\<close>

record Connection =
  c_target :: "NodeId option"
  c_targetPort :: PortId
  subscribed :: bool

text \<open>
  \<open>class Component\<close>: the fields of the header, without the back pointers \<open>network\<close> and
  \<open>io\<close> (the network is passed to every operation, and IO is outside the network's
  state), and the virtual \<open>process\<close>. A component reaches the rest of the program only
  through \<open>send\<close>, so \<open>process\<close> is a function from the packet, the input port and the
  component's own state \<open>local\<close> to the new state and the \<open>send(out, port)\<close> calls it
  makes, in order.
\<close>

record 's Component =
  connections :: "Connection list"
  nPorts :: int
  nodeId :: NodeId
  componentId :: int
  parentNodeId :: NodeId
  process :: "Packet \<Rightarrow> PortId \<Rightarrow> 's \<Rightarrow> 's \<times> (Packet \<times> PortId) list"
  local :: 's

text \<open>\<open>void setParent(int parentId) { parentNodeId = parentId; }\<close>: the \<open>int\<close> is
  converted to \<open>uint8_t\<close>.\<close>

definition setParent :: "'s Component \<Rightarrow> int \<Rightarrow> 's Component" where
  "setParent c parentId = c\<lparr>parentNodeId := word_of_int parentId\<rparr>"

text \<open>\<open>class Network\<close>: the private members of the header, without the pointer \<open>io\<close>.
  The array \<open>nodes\<close> holds the components themselves, a null entry is \<open>None\<close>.\<close>

record 's Network =
  nodes :: "'s Component option list"
  lastAddedNodeIndex :: NodeId
  messages :: "Message list"
  messageWriteIndex :: int
  messageReadIndex :: int
  notificationHandler :: "Handler option"
  state :: State
  debugLevel :: DebugLevel

text \<open>
  Modelled from the spec: the constructor \<open>Network::Network\<close> is only declared in the
  header. The network is created Stopped, with an empty node table, an empty queue and
  no notification handler; the specification gives no initial debug level, so it is a
  parameter.
\<close>

definition Network_new :: "DebugLevel \<Rightarrow> 's Network" where
  "Network_new level =
     \<lparr>nodes = replicate (nat MICROFLO_MAX_NODES) None,
      lastAddedNodeIndex = 0,
      messages = replicate (nat MICROFLO_MAX_MESSAGES)
                   \<lparr>target = None, targetPort = 0, pkg = Packet_void\<rparr>,
      messageWriteIndex = 0,
      messageReadIndex = 0,
      notificationHandler = None,
      state = Stopped,
      debugLevel = level\<rparr>"

text \<open>
  Modelled from the spec: \<open>Network::emitDebug\<close> is only declared in the header.
  "If level \<open>\<le>\<close> current, forwards to the notification handler's emitDebug"; the call
  goes through the header's macro \<open>MICROFLO_DEBUG\<close>, which skips a null handler.
\<close>

definition emitDebug :: "'s Network \<Rightarrow> DebugLevel \<Rightarrow> DebugId \<Rightarrow> 's Network" where
  "emitDebug net level id' =
     (if levelValue level \<le> levelValue (debugLevel net)
      then net\<lparr>notificationHandler := MICROFLO_DEBUG (notificationHandler net) level id'\<rparr>
      else net)"

text \<open>
  Modelled from the spec: "notifies". A call of one of the notification methods on the
  handler, if there is one.
\<close>

definition notify :: "'s Network \<Rightarrow> Notification \<Rightarrow> 's Network" where
  "notify net n =
     net\<lparr>notificationHandler := map_option (\<lambda>h. h @ [n]) (notificationHandler net)\<rparr>"

text \<open>
  Modelled from the spec: \<open>Network::addNode\<close> is only declared in the header.
  "Appends the component at the next free slot, binds the node id (= index+1), parent,
  network pointer, and IO pointer. Fails soft (emits NodeUpperLimitReached) when full.
  Notifies nodeAdded(component, parentId)." \<open>lastAddedNodeIndex\<close> is the next free index.
  A failure is the left summand; a capacity overrun is reported at the error level.
\<close>

definition addNode ::
  "'s Network \<Rightarrow> 's Component \<Rightarrow> NodeId \<Rightarrow> (DebugId + NodeId) \<times> 's Network" where
  "addNode net node parentId =
     (if MICROFLO_MAX_NODES \<le> uint (lastAddedNodeIndex net)
      then (Inl DebugNodeUpperLimitReached,
            emitDebug net DebugLevelError DebugNodeUpperLimitReached)
      else
        let index = lastAddedNodeIndex net;
            bound = setParent (node\<lparr>nodeId := index + 1\<rparr>) (uint parentId);
            net' = net\<lparr>nodes := (nodes net)[unat index := Some bound],
                       lastAddedNodeIndex := index + 1\<rparr>
        in (Inr (nodeId bound), notify net' (NodeAdded (nodeId bound) parentId)))"

text \<open>A caller that adds the given components one after the other and collects what
  each call returns.\<close>

fun addNodes ::
  "'s Network \<Rightarrow> ('s Component \<times> NodeId) list \<Rightarrow> (DebugId + NodeId) list \<times> 's Network" where
  "addNodes net [] = ([], net)"
| "addNodes net ((node, parentId) # rest) =
     (let (r, net1) = addNode net node parentId;
          (rs, net2) = addNodes net1 rest
      in (r # rs, net2))"

text \<open>
  Modelled from the spec: the array position of an index. The queue's state is the array
  and the two indices; "both indices monotonically advance modulo capacity", delivery
  ends "when readIndex == writeIndex", and "the first MAX_MESSAGES are delivered
  normally". These fit together when an index counts the messages written (read) so far
  and the message with index \<open>i\<close> lies at position \<open>i mod MICROFLO_MAX_MESSAGES\<close> of the
  circular array: equal indices mean an empty queue, and \<open>writeIndex - readIndex\<close>
  messages are waiting. The specification puts no bound on the indices.
\<close>

definition slot :: "int \<Rightarrow> nat" where
  "slot i = nat (i mod MICROFLO_MAX_MESSAGES)"

text \<open>
  Modelled from the spec: when the queue is full. "Enqueuing the (MAX_MESSAGES+1)-th
  unprocessed message yields MessageQueueFull and drops; the first MAX_MESSAGES are
  delivered normally": the queue is full when \<open>MICROFLO_MAX_MESSAGES\<close> messages are waiting.
\<close>

definition queueFull :: "'s Network \<Rightarrow> bool" where
  "queueFull net =
     (MICROFLO_MAX_MESSAGES \<le> messageWriteIndex net - messageReadIndex net)"

text \<open>
  Modelled from the spec: \<open>Network::sendMessage\<close> is only declared in the header.
  "Enqueues a Message onto the circular buffer and notifies packetSent. If full, emits
  MessageQueueFull and drops." The overrun is reported at the error level.
\<close>

definition sendMessage ::
  "'s Network \<Rightarrow> NodeId option \<Rightarrow> PortId \<Rightarrow> Packet \<Rightarrow> NodeId option \<Rightarrow> PortId \<Rightarrow> 's Network" where
  "sendMessage net tgt tgtPort p sender senderPort =
     (if queueFull net then emitDebug net DebugLevelError DebugMessageQueueFull
      else
        let i = messageWriteIndex net;
            m = \<lparr>target = tgt, targetPort = tgtPort, pkg = p\<rparr>;
            net' = net\<lparr>messages := (messages net)[slot i := m],
                       messageWriteIndex := i + 1\<rparr>
        in notify net' (PacketSent (int (slot i)) m sender senderPort))"

text \<open>
  Modelled from the spec: \<open>Component::send\<close> is only declared in the header.
  "Looks up connections[outPort]. If the target is null, the send is a no-op. Otherwise
  it enqueues a Message." A port outside the connection array sends nothing.
\<close>

definition send :: "'s Network \<Rightarrow> 's Component \<Rightarrow> Packet \<Rightarrow> PortId \<Rightarrow> 's Network" where
  "send net c out port =
     (if 0 \<le> sint port \<and> sint port < int (length (connections c))
      then (case c_target (connections c ! nat (sint port)) of
              None \<Rightarrow> net
            | Some t \<Rightarrow>
                sendMessage net (Some t) (c_targetPort (connections c ! nat (sint port))) out
                  (Some (nodeId c)) port)
      else net)"

text \<open>Modelled from the spec: "id resolution uses nodes[id-1]"; the id 0 and ids beyond
  the table resolve to no component.\<close>

definition resolve :: "'s Network \<Rightarrow> NodeId \<Rightarrow> 's Component option" where
  "resolve net i =
     (if i = 0 \<or> length (nodes net) < unat i then None else nodes net ! (unat i - 1))"

text \<open>
  Modelled from the spec: the call \<open>target->process(packet, port)\<close> on the node with the
  given id, "any send() calls it makes append new messages to the queue's tail". The
  component's state is replaced and its sends are enqueued in order.
\<close>

definition callProcess :: "'s Network \<Rightarrow> NodeId \<Rightarrow> Packet \<Rightarrow> PortId \<Rightarrow> 's Network" where
  "callProcess net i p port =
     (case resolve net i of
        None \<Rightarrow> net
      | Some c \<Rightarrow>
          let (l', outs) = process c p port (local c);
              c' = c\<lparr>local := l'\<rparr>;
              net' = net\<lparr>nodes := (nodes net)[unat i - 1 := Some c']\<rparr>
          in foldl (\<lambda>n (out, outPort). send n c' out outPort) net' outs)"

text \<open>
  Modelled from the spec: taking the oldest message out of the queue, "the queue is
  processed in strict FIFO order": the message at the position of the read index, and the
  read index advanced by one.
\<close>

definition dequeue :: "'s Network \<Rightarrow> Message \<times> 's Network" where
  "dequeue net =
     (messages net ! slot (messageReadIndex net),
      net\<lparr>messageReadIndex := messageReadIndex net + 1\<rparr>)"

text \<open>
  Modelled from the spec: the body of the delivery loop. "For each dequeued Message m,
  m.target.process(m.packet, m.targetPort) runs to completion; any send() calls it makes
  append new messages to the queue's tail. Each delivered message emits
  packetDelivered(index, m)."
\<close>

definition deliverMessage :: "'s Network \<Rightarrow> 's Network" where
  "deliverMessage net =
     (let (m, net1) = dequeue net;
          net2 = (case target m of
                    None \<Rightarrow> net1
                  | Some i \<Rightarrow> callProcess net1 i (pkg m) (targetPort m))
      in notify net2 (PacketDelivered (int (slot (messageReadIndex net))) m))"

text \<open>
  Modelled from the spec: the delivery loop (\<open>Network::processMessages\<close>) is only declared
  in the header. "The loop ends when readIndex == writeIndex." The loop need not end (a
  component may send on every packet it receives), so it takes the number of deliveries
  it may make and returns \<open>None\<close> when that is exhausted.
\<close>

fun processMessages :: "nat \<Rightarrow> 's Network \<Rightarrow> 's Network option" where
  "processMessages 0 net =
     (if messageReadIndex net = messageWriteIndex net then Some net else None)"
| "processMessages (Suc fuel) net =
     (if messageReadIndex net = messageWriteIndex net then Some net
      else processMessages fuel (deliverMessage net))"

text \<open>
  Modelled from the spec: "broadcast a ... packet to every node". The packet arrives on no
  port (\<open>-1\<close>), at the nodes in the order of the table.
\<close>

definition broadcast :: "'s Network \<Rightarrow> Packet \<Rightarrow> 's Network" where
  "broadcast net p =
     foldl (\<lambda>n k. callProcess n (of_nat (k + 1)) p (- 1)) net [0..<length (nodes net)]"

text \<open>
  Modelled from the spec: \<open>Network::runTick\<close> is only declared in the header.
  "If Running: (1) deliver all messages currently queued, then (2) broadcast a Tick packet
  to every node, then (3) deliver all messages that resulted." and "called in Stopped, it
  is a no-op that emits NotRunning at debug."
\<close>

definition runTick :: "nat \<Rightarrow> 's Network \<Rightarrow> 's Network option" where
  "runTick fuel net =
     (if state net \<noteq> Running then Some (emitDebug net DebugLevelError DebugNotRunning)
      else case processMessages fuel net of
             None \<Rightarrow> None
           | Some net1 \<Rightarrow> processMessages fuel (broadcast net1 (Packet_msg MsgTick)))"

text \<open>The queue's active window \<open>[readIndex, writeIndex)\<close>: the waiting messages, oldest
  first. A queue is well shaped when the array has its declared size, the read index has
  not passed the write index and at most \<open>MICROFLO_MAX_MESSAGES\<close> messages are waiting.\<close>

definition window :: "'s Network \<Rightarrow> Message list" where
  "window net =
     map (\<lambda>k. messages net ! slot (messageReadIndex net + int k))
       [0..<nat (messageWriteIndex net - messageReadIndex net)]"

definition queueShape :: "'s Network \<Rightarrow> bool" where
  "queueShape net =
     (length (messages net) = nat MICROFLO_MAX_MESSAGES
      \<and> 0 \<le> messageReadIndex net
      \<and> messageReadIndex net \<le> messageWriteIndex net
      \<and> messageWriteIndex net - messageReadIndex net \<le> MICROFLO_MAX_MESSAGES)"

subsection \<open>The IO interface\<close>

text \<open>
  \<open>class IO\<close> is abstract. An implementation is represented by its methods over the
  target's state \<open>'t\<close>; only the timer methods are needed here. \<open>TimerCurrentMs\<close> is pure
  virtual, so every implementation supplies it; \<open>TimerCurrentMicros\<close> has a body in the
  base class, so an implementation either overrides it or, with \<open>None\<close>, inherits it.
\<close>

record 't IO =
  impl_TimerCurrentMs :: "'t \<Rightarrow> long \<times> 't"
  impl_TimerCurrentMicros :: "('t \<Rightarrow> long \<times> 't) option"

definition TimerCurrentMs :: "'t IO \<Rightarrow> 't \<Rightarrow> long \<times> 't" where
  "TimerCurrentMs io t = impl_TimerCurrentMs io t"

text \<open>The body in the base class: \<open>return TimerCurrentMs()*1000;\<close>, in \<open>long\<close>
  arithmetic.\<close>

definition IO_TimerCurrentMicros :: "'t IO \<Rightarrow> 't \<Rightarrow> long \<times> 't" where
  "IO_TimerCurrentMicros io t = (let (ms, t') = TimerCurrentMs io t in (ms * 1000, t'))"

text \<open>The virtual call.\<close>

definition TimerCurrentMicros :: "'t IO \<Rightarrow> 't \<Rightarrow> long \<times> 't" where
  "TimerCurrentMicros io t =
     (case impl_TimerCurrentMicros io of
        None \<Rightarrow> IO_TimerCurrentMicros io t
      | Some f \<Rightarrow> f t)"

datatype PullupMode = PullNone | PullUp

datatype Interrupt_Mode = OnLow | OnHigh | OnChange | OnRisingEdge | OnFallingEdge

subsection \<open>The Stellaris target\<close>

text \<open>\<open>static const char * const gMagic = "MAGIC!012";\<close>\<close>

definition gMagic :: string where
  "gMagic = ''MAGIC!012''"

text \<open>
  The object's state: the \<open>debug\<close> pointer inherited from \<open>IO\<close>, the member \<open>magic\<close>,
  and the tick counter \<open>g_ulSysTickCount\<close> (a global \<open>unsigned long\<close> that the SysTick
  interrupt increments).
\<close>

record StellarisIO =
  debug :: "Handler option"
  magic :: string
  g_ulSysTickCount :: "32 word"

text \<open>The constructor initialises \<open>magic(gMagic)\<close>; \<open>debug\<close> is set from outside (by the
  network) and the counter is the global's current value.\<close>

definition StellarisIO_new :: "Handler option \<Rightarrow> 32 word \<Rightarrow> StellarisIO" where
  "StellarisIO_new d ticks = \<lparr>debug = d, magic = gMagic, g_ulSysTickCount = ticks\<rparr>"

definition PinSetPullup :: "StellarisIO \<Rightarrow> PinId \<Rightarrow> PullupMode \<Rightarrow> StellarisIO" where
  "PinSetPullup io pin mode =
     (if mode = PullNone then io
      else io\<lparr>debug := MICROFLO_DEBUG (debug io) DebugLevelError DebugIoOperationNotImplemented\<rparr>)"

definition DigitalRead :: "StellarisIO \<Rightarrow> PinId \<Rightarrow> bool \<times> StellarisIO" where
  "DigitalRead io pin =
     (False, io\<lparr>debug := MICROFLO_DEBUG (debug io) DebugLevelError DebugIoOperationNotImplemented\<rparr>)"

definition AnalogRead :: "StellarisIO \<Rightarrow> PinId \<Rightarrow> long \<times> StellarisIO" where
  "AnalogRead io pin =
     (0, io\<lparr>debug := MICROFLO_DEBUG (debug io) DebugLevelError DebugIoOperationNotImplemented\<rparr>)"

definition PwmWrite :: "StellarisIO \<Rightarrow> PinId \<Rightarrow> long \<Rightarrow> StellarisIO" where
  "PwmWrite io pin dutyPercent =
     io\<lparr>debug := MICROFLO_DEBUG (debug io) DebugLevelError DebugIoOperationNotImplemented\<rparr>"

text \<open>The callback and its user pointer are addresses.\<close>

definition AttachExternalInterrupt ::
  "StellarisIO \<Rightarrow> 32 word \<Rightarrow> Interrupt_Mode \<Rightarrow> nat \<Rightarrow> nat \<Rightarrow> StellarisIO" where
  "AttachExternalInterrupt io interrupt mode func user =
     io\<lparr>debug := MICROFLO_DEBUG (debug io) DebugLevelError DebugIoOperationNotImplemented\<rparr>"

text \<open>\<open>return g_ulSysTickCount/1000;\<close> (unsigned division) and
  \<open>return g_ulSysTickCount;\<close>\<close>

definition StellarisIO_TimerCurrentMs :: "StellarisIO \<Rightarrow> long" where
  "StellarisIO_TimerCurrentMs io = g_ulSysTickCount io div 1000"

definition StellarisIO_TimerCurrentMicros :: "StellarisIO \<Rightarrow> long" where
  "StellarisIO_TimerCurrentMicros io = g_ulSysTickCount io"

definition StellarisIO_methods :: "StellarisIO IO" where
  "StellarisIO_methods =
     \<lparr>impl_TimerCurrentMs = (\<lambda>io. (StellarisIO_TimerCurrentMs io, io)),
      impl_TimerCurrentMicros = Some (\<lambda>io. (StellarisIO_TimerCurrentMicros io, io))\<rparr>"

subsection \<open>The host protocol\<close>

text \<open>\<open>const size_t MICROFLO_CMD_SIZE = 1 + 7; // cmd + payload\<close>\<close>

definition MICROFLO_CMD_SIZE :: nat where
  "MICROFLO_CMD_SIZE = 1 + 7"

text \<open>\<open>enum HostCommunication::State { Invalid = -1, ParseHeader, ParseCmd, LookForHeader }\<close>.
  The enumerator \<open>Invalid\<close> is written \<open>ParserInvalid\<close> here, as \<open>Network::State\<close> has an
  \<open>Invalid\<close> of its own.\<close>

datatype HostCommunication_State = ParserInvalid | ParseHeader | ParseCmd | LookForHeader

fun HostCommunication_State_value :: "HostCommunication_State \<Rightarrow> int" where
  "HostCommunication_State_value ParserInvalid = -1"
| "HostCommunication_State_value ParseHeader = 0"
| "HostCommunication_State_value ParseCmd = 1"
| "HostCommunication_State_value LookForHeader = 2"

text \<open>\<open>class HostCommunication\<close>: the private members of the header, without the pointer
  \<open>transport\<close> (parsing does not write to it). \<open>hc_network\<close> is the network behind the
  \<open>network\<close> pointer, of any type \<open>'n\<close>; \<open>hc_state\<close> is the member \<open>state\<close>.\<close>

record 'n HostCommunication =
  hc_network :: 'n
  currentByte :: "8 word"
  buffer :: "8 word list"
  hc_state :: HostCommunication_State

text \<open>The \<open>k\<close>-th byte of the magic header.\<close>

definition magicByte :: "nat \<Rightarrow> 8 word" where
  "magicByte k = of_nat (of_char (gMagic ! k))"

text \<open>
  Modelled from the spec: the constructor \<open>HostCommunication::HostCommunication\<close> is only
  declared in the header. "On fresh boot ... the parser scans bytes until it matches the
  header": the parser starts in \<open>LookForHeader\<close> with an empty buffer.
\<close>

definition HostCommunication_new :: "'n \<Rightarrow> 'n HostCommunication" where
  "HostCommunication_new net =
     \<lparr>hc_network = net, currentByte = 0, buffer = replicate MICROFLO_CMD_SIZE 0,
      hc_state = LookForHeader\<rparr>"

text \<open>
  Modelled from the spec: \<open>HostCommunication::parseByte\<close> and \<open>parseCmd\<close> are only declared
  in the header. "In ParseCmd, bytes are accumulated into a fixed 8-byte buffer; on
  completion, parseCmd() dispatches by opcode. ... The parser re-enters ParseCmd for the
  next frame" and "on fresh boot or after a parse error, the parser scans bytes until it
  matches the header, then switches to ParseCmd". The opcodes and their effect on the
  network are not part of the sources, so \<open>parseCmd\<close> is a parameter: from the frame and
  the network it gives the new network and whether the frame parsed. \<open>LookForHeader\<close>
  waits for the first byte of the header, \<open>ParseHeader\<close> compares the following bytes
  with the rest of it and falls back at the first difference; in the sentinel state
  bytes are ignored.
\<close>

definition parseByte ::
  "(8 word list \<Rightarrow> 'n \<Rightarrow> bool \<times> 'n) \<Rightarrow> 'n HostCommunication \<Rightarrow> 8 word \<Rightarrow> 'n HostCommunication" where
  "parseByte parseCmd hc b =
     (case hc_state hc of
        ParseCmd \<Rightarrow>
          let buf = (buffer hc)[unat (currentByte hc) := b];
              n = currentByte hc + 1
          in if unat n = MICROFLO_CMD_SIZE
             then let (ok, net') = parseCmd buf (hc_network hc)
                  in hc\<lparr>hc_network := net', currentByte := 0, buffer := buf,
                        hc_state := (if ok then ParseCmd else LookForHeader)\<rparr>
             else hc\<lparr>currentByte := n, buffer := buf\<rparr>
      | LookForHeader \<Rightarrow>
          if b = magicByte 0 then hc\<lparr>currentByte := 1, hc_state := ParseHeader\<rparr>
          else hc\<lparr>currentByte := 0\<rparr>
      | ParseHeader \<Rightarrow>
          if unat (currentByte hc) < length gMagic \<and> b = magicByte (unat (currentByte hc))
          then (if unat (currentByte hc) + 1 = length gMagic
                then hc\<lparr>currentByte := 0, hc_state := ParseCmd\<rparr>
                else hc\<lparr>currentByte := currentByte hc + 1\<rparr>)
          else hc\<lparr>currentByte := 0, hc_state := LookForHeader\<rparr>
      | ParserInvalid \<Rightarrow> hc)"

text \<open>
  Modelled from the spec: \<open>HostTransport::padCommandWithNArguments\<close> is only declared in
  the header. "padCommandWithNArguments(n) writes 7 - n zero bytes to keep frames
  fixed-width." The transport is represented by the bytes given to \<open>sendCommandByte\<close> so
  far.
\<close>

definition padCommandWithNArguments :: "8 word list \<Rightarrow> int \<Rightarrow> 8 word list" where
  "padCommandWithNArguments sent arguments = sent @ replicate (nat (7 - arguments)) 0"

subsection \<open>Example components\<close>

text \<open>Two components for the examples: a sink, which sends nothing, and a ticker with
  one output port wired to input port 0 of node 2, which sends a Boolean on every Tick.\<close>

definition Sink :: "unit Component" where
  "Sink = \<lparr>connections = [], nPorts = 0, nodeId = 0, componentId = 0, parentNodeId = 0,
           process = (\<lambda>p port l. (l, [])), local = ()\<rparr>"

definition Ticker :: "unit Component" where
  "Ticker = \<lparr>connections = [\<lparr>c_target = Some 2, c_targetPort = 0, subscribed = False\<rparr>],
             nPorts = 1, nodeId = 0, componentId = 1, parentNodeId = 0,
             process = (\<lambda>p port l. (l, if isTick p then [(Packet_bool True, 0)] else [])),
             local = ()\<rparr>"



definition sinkNet :: "unit Network" where
  "sinkNet = (snd (addNodes (Network_new DebugLevelError) [(Sink, 0)]))\<lparr>state := Running\<rparr>"


text \<open>For the examples: \<open>k\<close> messages sent from outside to input port 0 of node 1, the
  \<open>j\<close>-th carrying the byte \<open>j\<close>; the messages that a handler saw delivered, in order; a
  running network of one sink with a handler attached; and a network whose debug level
  is Off, with a handler attached.\<close>

fun sendMany :: "nat \<Rightarrow> 's Network \<Rightarrow> 's Network" where
  "sendMany 0 net = net"
| "sendMany (Suc k) net =
     sendMessage (sendMany k net) (Some 1) 0 (Packet_byte (of_nat k)) None (- 1)"

fun delivered :: "Handler \<Rightarrow> Message list" where
  "delivered [] = []"
| "delivered (PacketDelivered i m # rest) = m # delivered rest"
| "delivered (n # rest) = delivered rest"

definition observedSinkNet :: "unit Network" where
  "observedSinkNet = sinkNet\<lparr>notificationHandler := Some []\<rparr>"

definition quietNet :: "unit Network" where
  "quietNet = (Network_new DebugLevelOff)\<lparr>notificationHandler := Some []\<rparr>"

text \<open>For the examples: a \<open>parseCmd\<close> that accepts every frame and records it, and a
  parser that has passed the header.\<close>

definition recordFrame :: "8 word list \<Rightarrow> 8 word list list \<Rightarrow> bool \<times> 8 word list list" where
  "recordFrame frame seen = (True, seen @ [frame])"

definition readyParser :: "8 word list list HostCommunication" where
  "readyParser = (HostCommunication_new [])\<lparr>hc_state := ParseCmd\<rparr>"

section \<open>Properties\<close>

subsection \<open>Packets, node ids and the magic string\<close>

text \<open>
  C3. For every packet and every numbering of the kinds, \<open>isData\<close> holds exactly when the
  kind's value lies strictly between those of \<open>MsgInvalid\<close> and \<open>MsgMaxDefined\<close> and the
  kind is neither \<open>MsgSetup\<close> nor \<open>MsgTick\<close>; \<open>isSpecial\<close> holds exactly for Setup and
  Tick; \<open>isNumber\<close> holds exactly for \<open>MsgInteger\<close> and \<open>MsgFloat\<close>.
\<close>

theorem isData_iff_valid_not_special:
  "isData v p =
     ((v MsgInvalid < v (type p) \<and> v (type p) < v MsgMaxDefined)
        \<and> \<not> (type p = MsgSetup \<or> type p = MsgTick))
   \<and> isData v p = (isValid v p \<and> \<not> isSpecial p)
   \<and> isSpecial p = (type p = MsgSetup \<or> type p = MsgTick)
   \<and> isNumber p = (type p = MsgInteger \<or> type p = MsgFloat)"
  by (simp add: isData_def isValid_def isSpecial_def isSetup_def isTick_def
      isNumber_def isInteger_def isFloat_def type_def)

text \<open>
  C7. A node id is an unsigned 8-bit value: it lies in \<open>0..255\<close> and 255 + 1 wraps to 0.
  \<open>firstNodeId\<close> is 1, so it differs from the reserved 0 and is the id right after it;
  no id other than 0 is below it.
\<close>

theorem firstNodeId_is_one:
  "firstNodeId = 1 \<and> unat firstNodeId = 1 \<and> firstNodeId \<noteq> 0 \<and> firstNodeId - 1 = 0
   \<and> size firstNodeId = 8
   \<and> (\<forall>n :: NodeId. unat n < 256)
   \<and> (255 :: NodeId) + 1 = 0
   \<and> (\<forall>n :: NodeId. (n < firstNodeId) = (n = 0))"
proof -
  have a: "\<forall>n :: NodeId. unat n < 256"
  proof
    fix n :: NodeId
    show "unat n < 256" using unsigned_less [of n, where 'a = nat] by simp
  qed
  have b: "\<forall>n :: NodeId. (n < firstNodeId) = (n = 0)"
    by (simp add: firstNodeId_def word_less_1)
  show ?thesis using a b by (simp add: firstNodeId_def word_size)
qed


subsection \<open>The states of the parser\<close>

text \<open>
  C8, as stated: every value of the parser's state is one of \<open>LookForHeader\<close>,
  \<open>ParseHeader\<close>, \<open>ParseCmd\<close>. The enumeration has a fourth enumerator, \<open>Invalid = -1\<close>.
\<close>

theorem parser_state_invalid_is_fourth:
  "ParserInvalid \<notin> {LookForHeader, ParseHeader, ParseCmd}
   \<and> HostCommunication_State_value ParserInvalid = -1"
  by simp

text \<open>
  C8, amended. The parser's state enumeration has exactly four enumerators: the
  sentinel \<open>Invalid\<close> with value \<open>-1\<close>, and the three parsing states \<open>ParseHeader\<close>,
  \<open>ParseCmd\<close>, \<open>LookForHeader\<close> with values 0, 1, 2. The parsing states are exactly the
  enumerators with a value of at least 0.
\<close>

theorem parser_states_enumerated:
  "(UNIV :: HostCommunication_State set) = {ParserInvalid, ParseHeader, ParseCmd, LookForHeader}
   \<and> card (UNIV :: HostCommunication_State set) = 4
   \<and> distinct [ParserInvalid, ParseHeader, ParseCmd, LookForHeader]
   \<and> map HostCommunication_State_value [ParserInvalid, ParseHeader, ParseCmd, LookForHeader]
       = [-1, 0, 1, 2]
   \<and> {s. 0 \<le> HostCommunication_State_value s} = {ParseHeader, ParseCmd, LookForHeader}
   \<and> card {s. 0 \<le> HostCommunication_State_value s} = 3"
proof -
  have u: "(UNIV :: HostCommunication_State set)
             = {ParserInvalid, ParseHeader, ParseCmd, LookForHeader}"
  proof -
    have "s \<in> {ParserInvalid, ParseHeader, ParseCmd, LookForHeader}"
      for s :: HostCommunication_State
      by (cases s) simp_all
    then show ?thesis by blast
  qed
  have p: "{s. 0 \<le> HostCommunication_State_value s} = {ParseHeader, ParseCmd, LookForHeader}"
  proof -
    have "(0 \<le> HostCommunication_State_value s) = (s \<in> {ParseHeader, ParseCmd, LookForHeader})"
      for s :: HostCommunication_State
      by (cases s) simp_all
    then show ?thesis by blast
  qed
  have c: "card (UNIV :: HostCommunication_State set) = 4"
    by (simp add: u)
  have c3: "card {s. 0 \<le> HostCommunication_State_value s} = 3"
    by (simp add: p)
  show ?thesis using u p c c3 by simp
qed

subsection \<open>Unimplemented IO on the Stellaris target\<close>

text \<open>
  C9, as stated: invoking an unimplemented primitive emits the debug id. With no debug
  handler attached, the guard of \<open>MICROFLO_DEBUG\<close> skips the call and nothing is emitted.
\<close>

theorem DigitalRead_without_handler_emits_nothing:
  "debug (snd (DigitalRead (StellarisIO_new None 0) 3)) = None
   \<and> snd (DigitalRead (StellarisIO_new None 0) 3) = StellarisIO_new None 0"
  by (simp add: DigitalRead_def StellarisIO_new_def MICROFLO_DEBUG_def)

text \<open>
  C9, amended. On the Stellaris target \<open>DigitalRead\<close> returns false, \<open>AnalogRead\<close>
  returns 0, and these two, \<open>PwmWrite\<close> and \<open>AttachExternalInterrupt\<close> change nothing
  but the debug handler: when one is attached it receives
  \<open>emitDebug(DebugLevelError, DebugIoOperationNotImplemented)\<close> once, and when none is
  attached the object is left as it was. \<open>PinSetPullup\<close> does the same for the mode
  \<open>PullUp\<close>, which the target does not implement, and nothing for \<open>PullNone\<close>.
\<close>

theorem stellaris_unimplemented_primitives:
  "(let ev = EmitDebug DebugLevelError DebugIoOperationNotImplemented;
        io' = io\<lparr>debug := map_option (\<lambda>h. h @ [ev]) (debug io)\<rparr>
    in DigitalRead io pin = (False, io')
       \<and> AnalogRead io pin = (0, io')
       \<and> PwmWrite io pin dutyPercent = io'
       \<and> AttachExternalInterrupt io interrupt mode func user = io'
       \<and> PinSetPullup io pin PullUp = io'
       \<and> PinSetPullup io pin PullNone = io
       \<and> (debug io = None \<longrightarrow> io' = io)
       \<and> (\<forall>h. debug io = Some h \<longrightarrow> debug io' = Some (h @ [ev])))"
  by (cases "debug io")
     (simp_all add: Let_def DigitalRead_def AnalogRead_def PwmWrite_def
        AttachExternalInterrupt_def PinSetPullup_def MICROFLO_DEBUG_def)

theorem stellaris_unimplemented_primitives_witness:
  "debug (StellarisIO_new (Some []) 0) = Some []
   \<and> DigitalRead (StellarisIO_new (Some []) 0) 3
       = (False, StellarisIO_new (Some [EmitDebug DebugLevelError DebugIoOperationNotImplemented]) 0)
   \<and> AnalogRead (StellarisIO_new (Some []) 0) 3
       = (0, StellarisIO_new (Some [EmitDebug DebugLevelError DebugIoOperationNotImplemented]) 0)
   \<and> PwmWrite (StellarisIO_new (Some []) 0) 3 50
       = StellarisIO_new (Some [EmitDebug DebugLevelError DebugIoOperationNotImplemented]) 0
   \<and> AttachExternalInterrupt (StellarisIO_new (Some []) 0) 0 OnChange 0 0
       = StellarisIO_new (Some [EmitDebug DebugLevelError DebugIoOperationNotImplemented]) 0"
  using stellaris_unimplemented_primitives
          [of "StellarisIO_new (Some []) 0" 3 50 0 OnChange 0 0]
  by (simp add: Let_def StellarisIO_new_def)

subsection \<open>The microsecond clock of the base class\<close>

text \<open>The product by 1000 in \<open>long\<close> is the integer product when that fits in 32 bits.\<close>

lemma sint_times_1000:
  fixes ms :: long
  assumes "- (2 ^ 31) \<le> sint ms * 1000" and "sint ms * 1000 < 2 ^ 31"
  shows "sint (ms * 1000) = sint ms * 1000"
proof -
  have "sint (ms * 1000) = signed_take_bit 31 (sint ms * sint (1000 :: long))"
    by (simp add: sint_word_ariths)
  also have "sint (1000 :: long) = 1000" by simp
  finally show ?thesis using assms by (simp add: signed_take_bit_int_eq_self)
qed

text \<open>The Stellaris target overrides the microsecond clock: its value is the tick
  counter, not the millisecond clock times 1000.\<close>

lemma StellarisIO_overrides_TimerCurrentMicros:
  "impl_TimerCurrentMicros StellarisIO_methods \<noteq> None
   \<and> fst (TimerCurrentMs StellarisIO_methods (StellarisIO_new None 1500)) = 1
   \<and> fst (TimerCurrentMicros StellarisIO_methods (StellarisIO_new None 1500)) = 1500"
  by (simp add: TimerCurrentMicros_def TimerCurrentMs_def StellarisIO_methods_def
      StellarisIO_TimerCurrentMicros_def StellarisIO_TimerCurrentMs_def StellarisIO_new_def)

text \<open>
  C10. For an IO implementation that does not override \<open>TimerCurrentMicros\<close>, the call
  returns the value of \<open>TimerCurrentMs()\<close> multiplied by 1000 in \<open>long\<close> arithmetic, and
  leaves the target in the state \<open>TimerCurrentMs()\<close> left it in. Read as integers, the
  result is the millisecond value times 1000 whenever that product fits in a \<open>long\<close>.
\<close>

theorem TimerCurrentMicros_is_ms_times_1000:
  assumes "impl_TimerCurrentMicros io = None"
  shows "TimerCurrentMicros io t
           = (fst (TimerCurrentMs io t) * 1000, snd (TimerCurrentMs io t))
         \<and> (- (2 ^ 31) \<le> sint (fst (TimerCurrentMs io t)) * 1000
              \<and> sint (fst (TimerCurrentMs io t)) * 1000 < 2 ^ 31
            \<longrightarrow> sint (fst (TimerCurrentMicros io t))
                  = sint (fst (TimerCurrentMs io t)) * 1000)"
proof -
  have eq: "TimerCurrentMicros io t
              = (fst (TimerCurrentMs io t) * 1000, snd (TimerCurrentMs io t))"
    using assms
    by (simp add: TimerCurrentMicros_def IO_TimerCurrentMicros_def split_beta)
  show ?thesis
    by (simp add: eq sint_times_1000)
qed

theorem TimerCurrentMicros_is_ms_times_1000_witness:
  "impl_TimerCurrentMicros
      \<lparr>impl_TimerCurrentMs = (\<lambda>t :: unit. (7, t)), impl_TimerCurrentMicros = None\<rparr> = None
   \<and> TimerCurrentMicros
      \<lparr>impl_TimerCurrentMs = (\<lambda>t :: unit. (7, t)), impl_TimerCurrentMicros = None\<rparr> ()
       = (7000, ())
   \<and> sint (fst (TimerCurrentMicros
      \<lparr>impl_TimerCurrentMs = (\<lambda>t :: unit. (7, t)), impl_TimerCurrentMicros = None\<rparr> ()))
       = 7000"
  using TimerCurrentMicros_is_ms_times_1000
          [of "\<lparr>impl_TimerCurrentMs = (\<lambda>t :: unit. (7, t)), impl_TimerCurrentMicros = None\<rparr>" "()"]
  by (simp add: TimerCurrentMs_def)

subsection \<open>The debug level filter\<close>

text \<open>
  C6, as stated: every debug event actually emitted has a level of at most the current
  debug level. The IO methods of the Stellaris target report through \<open>MICROFLO_DEBUG\<close>,
  which has no level test: with the debug level Off, \<open>emitDebug\<close> forwards no event of
  level Error, yet the handler attached to the IO object receives one from \<open>DigitalRead\<close>.
\<close>

theorem io_event_bypasses_debug_level:
  "debugLevel quietNet = DebugLevelOff
   \<and> levelValue (debugLevel quietNet) < levelValue DebugLevelError
   \<and> notificationHandler quietNet = Some []
   \<and> notificationHandler (emitDebug quietNet DebugLevelError DebugIoOperationNotImplemented)
       = Some []
   \<and> debug (snd (DigitalRead (StellarisIO_new (notificationHandler quietNet) 0) 3))
       = Some [EmitDebug DebugLevelError DebugIoOperationNotImplemented]"
  by (simp add: quietNet_def Network_new_def emitDebug_def DigitalRead_def StellarisIO_new_def
      MICROFLO_DEBUG_def)

text \<open>
  C6, amended. \<open>emitDebug(level, id)\<close> calls \<open>emitDebug(level, id)\<close> of the network's
  notification handler exactly when the level is at most the current debug level, and
  otherwise leaves the network as it is; it never changes anything but the handler, and
  whatever it adds to the handler is that one event, with a level of at most the current
  debug level. The macro \<open>MICROFLO_DEBUG\<close> itself passes every level on: the events that
  the IO methods of the Stellaris target report through it reach the attached handler at
  level Error, whatever the debug level of the network is.
\<close>

theorem emitDebug_forwards_iff_level:
  "(\<forall>h. notificationHandler net = Some h \<longrightarrow>
       ((notificationHandler (emitDebug net level i) = Some (h @ [EmitDebug level i]))
          = (levelValue level \<le> levelValue (debugLevel net)))
       \<and> (\<not> levelValue level \<le> levelValue (debugLevel net) \<longrightarrow> emitDebug net level i = net)
       \<and> (\<forall>h'. notificationHandler (emitDebug net level i) = Some h' \<and> h' \<noteq> h
             \<longrightarrow> h' = h @ [EmitDebug level i]
                 \<and> levelValue level \<le> levelValue (debugLevel net)))
   \<and> emitDebug net level i = net\<lparr>notificationHandler := notificationHandler (emitDebug net level i)\<rparr>
   \<and> (\<forall>h l. MICROFLO_DEBUG (Some h) l i = Some (h @ [EmitDebug l i]))
   \<and> (\<forall>h. debug io = Some h \<longrightarrow>
         debug (snd (DigitalRead io pin))
           = Some (h @ [EmitDebug DebugLevelError DebugIoOperationNotImplemented])
         \<and> debug (snd (AnalogRead io pin))
           = Some (h @ [EmitDebug DebugLevelError DebugIoOperationNotImplemented])
         \<and> debug (PwmWrite io pin dutyPercent)
           = Some (h @ [EmitDebug DebugLevelError DebugIoOperationNotImplemented])
         \<and> debug (AttachExternalInterrupt io interrupt mode func user)
           = Some (h @ [EmitDebug DebugLevelError DebugIoOperationNotImplemented]))"
  by (cases "notificationHandler net")
     (auto simp add: emitDebug_def MICROFLO_DEBUG_def DigitalRead_def AnalogRead_def
        PwmWrite_def AttachExternalInterrupt_def)

theorem emitDebug_forwards_iff_level_witness:
  "notificationHandler ((Network_new DebugLevelError :: unit Network)\<lparr>notificationHandler := Some []\<rparr>) = Some []
   \<and> notificationHandler (emitDebug ((Network_new DebugLevelError :: unit Network)\<lparr>notificationHandler := Some []\<rparr>)
        DebugLevelError DebugMessageQueueFull) = Some [EmitDebug DebugLevelError DebugMessageQueueFull]
   \<and> notificationHandler (emitDebug ((Network_new DebugLevelError :: unit Network)\<lparr>notificationHandler := Some []\<rparr>)
        DebugLevelInfo DebugMessageQueueFull) = Some []
   \<and> debug (StellarisIO_new (Some []) 0) = Some []
   \<and> debug (snd (DigitalRead (StellarisIO_new (Some []) 0) 3))
       = Some [EmitDebug DebugLevelError DebugIoOperationNotImplemented]"
  using emitDebug_forwards_iff_level
     [of "(Network_new DebugLevelError :: unit Network)\<lparr>notificationHandler := Some []\<rparr>"
         DebugLevelError DebugMessageQueueFull "StellarisIO_new (Some []) 0" 3]
    emitDebug_forwards_iff_level
     [of "(Network_new DebugLevelError :: unit Network)\<lparr>notificationHandler := Some []\<rparr>"
         DebugLevelInfo DebugMessageQueueFull "StellarisIO_new (Some []) 0" 3]
  by (simp add: Network_new_def StellarisIO_new_def)

subsection \<open>Adding nodes\<close>

lemma addNode_full:
  "MICROFLO_MAX_NODES \<le> uint (lastAddedNodeIndex net) \<Longrightarrow>
   fst (addNode net c p) = Inl DebugNodeUpperLimitReached
   \<and> nodes (snd (addNode net c p)) = nodes net
   \<and> lastAddedNodeIndex (snd (addNode net c p)) = lastAddedNodeIndex net"
  by (simp add: addNode_def emitDebug_def)

lemma addNode_free:
  "\<not> MICROFLO_MAX_NODES \<le> uint (lastAddedNodeIndex net) \<Longrightarrow>
   fst (addNode net c p) = Inr (lastAddedNodeIndex net + 1)
   \<and> nodes (snd (addNode net c p))
       = (nodes net)[unat (lastAddedNodeIndex net)
            := Some (c\<lparr>nodeId := lastAddedNodeIndex net + 1, parentNodeId := p\<rparr>)]
   \<and> lastAddedNodeIndex (snd (addNode net c p)) = lastAddedNodeIndex net + 1"
  by (simp add: addNode_def Let_def notify_def setParent_def)

lemma unat_next_index:
  fixes a :: NodeId
  assumes "\<not> MICROFLO_MAX_NODES \<le> uint a"
  shows "unat (a + 1) = unat a + 1"
proof -
  have "uint a < 50" using assms by (simp add: MICROFLO_MAX_NODES_def)
  then have "unat a < 50" by transfer simp
  then have "unat a + unat (1 :: NodeId) < 2 ^ LENGTH(8)" by simp
  then have "unat (a + 1) = unat a + unat (1 :: NodeId)"
    by (rule unat_add_lem [THEN iffD1])
  then show ?thesis by simp
qed


lemma node_limit_unat:
  fixes a :: NodeId
  shows "(MICROFLO_MAX_NODES \<le> uint a) = (nat MICROFLO_MAX_NODES \<le> unat a)"
  unfolding MICROFLO_MAX_NODES_def by transfer (simp, arith)

lemma addNodes_length: "length (fst (addNodes net cs)) = length cs"
  by (induction cs arbitrary: net) (auto simp add: split_beta Let_def)

lemma addNodes_run:
  assumes "length (nodes net) = nat MICROFLO_MAX_NODES"
  shows "length (nodes (snd (addNodes net cs))) = nat MICROFLO_MAX_NODES
    \<and> (\<forall>j < unat (lastAddedNodeIndex net). nodes (snd (addNodes net cs)) ! j = nodes net ! j)
    \<and> (\<forall>i < length cs.
         (unat (lastAddedNodeIndex net) + i < nat MICROFLO_MAX_NODES \<longrightarrow>
            fst (addNodes net cs) ! i = Inr (lastAddedNodeIndex net + of_nat i + 1)
            \<and> nodes (snd (addNodes net cs)) ! (unat (lastAddedNodeIndex net) + i)
                = Some ((fst (cs ! i))\<lparr>nodeId := lastAddedNodeIndex net + of_nat i + 1,
                                        parentNodeId := snd (cs ! i)\<rparr>))
         \<and> (nat MICROFLO_MAX_NODES \<le> unat (lastAddedNodeIndex net) + i \<longrightarrow>
              fst (addNodes net cs) ! i = Inl DebugNodeUpperLimitReached))"
  using assms
proof (induction cs arbitrary: net)
  case Nil
  then show ?case by simp
next
  case (Cons x cs)
  obtain c p where x: "x = (c, p)" by (cases x)
  let ?a = "lastAddedNodeIndex net"
  let ?net1 = "snd (addNode net c p)"
  have run: "addNodes net (x # cs)
               = (fst (addNode net c p) # fst (addNodes ?net1 cs), snd (addNodes ?net1 cs))"
    by (simp add: x split_beta Let_def)
  show ?case
  proof (cases "MICROFLO_MAX_NODES \<le> uint ?a")
    case True
    note full = addNode_full [OF True, of c p]
    have len1: "length (nodes ?net1) = nat MICROFLO_MAX_NODES"
      using full Cons.prems by simp
    have a1: "lastAddedNodeIndex ?net1 = ?a" using full by simp
    have big: "nat MICROFLO_MAX_NODES \<le> unat ?a"
      using True by (simp add: node_limit_unat)
    note ih = Cons.IH [OF len1, unfolded a1]
    show ?thesis
    proof (intro conjI allI impI)
      show "length (nodes (snd (addNodes net (x # cs)))) = nat MICROFLO_MAX_NODES"
        using ih by (simp add: run)
    next
      fix j assume "j < unat ?a"
      then show "nodes (snd (addNodes net (x # cs))) ! j = nodes net ! j"
        using ih full by (simp add: run)
    next
      fix i assume "i < length (x # cs)" "unat ?a + i < nat MICROFLO_MAX_NODES"
      then show "fst (addNodes net (x # cs)) ! i = Inr (?a + of_nat i + 1)"
        using big by simp
    next
      fix i assume "i < length (x # cs)" "unat ?a + i < nat MICROFLO_MAX_NODES"
      then show "nodes (snd (addNodes net (x # cs))) ! (unat ?a + i)
                = Some ((fst ((x # cs) ! i))\<lparr>nodeId := ?a + of_nat i + 1,
                                        parentNodeId := snd ((x # cs) ! i)\<rparr>)"
        using big by simp
    next
      fix i assume i: "i < length (x # cs)"
      show "fst (addNodes net (x # cs)) ! i = Inl DebugNodeUpperLimitReached"
      proof (cases i)
        case 0
        then show ?thesis using full by (simp add: run)
      next
        case (Suc k)
        then have "k < length cs" using i by simp
        moreover have "nat MICROFLO_MAX_NODES \<le> unat ?a + k" using big by simp
        ultimately show ?thesis using ih Suc by (simp add: run)
      qed
    qed
  next
    case False
    note free = addNode_free [OF False, of c p]
    note un = unat_next_index [OF False]
    have small: "unat ?a < nat MICROFLO_MAX_NODES"
      using False by (simp add: node_limit_unat)
    have len1: "length (nodes ?net1) = nat MICROFLO_MAX_NODES"
      using free Cons.prems by simp
    have a1: "lastAddedNodeIndex ?net1 = ?a + 1" using free by simp
    note ih = Cons.IH [OF len1, unfolded a1 un]
    have slot: "nodes ?net1 ! unat ?a = Some (c\<lparr>nodeId := ?a + 1, parentNodeId := p\<rparr>)"
      using free small Cons.prems by simp
    have kept: "j < unat ?a \<Longrightarrow> nodes ?net1 ! j = nodes net ! j" for j
      using free by simp
    show ?thesis
    proof (intro conjI allI impI)
      show "length (nodes (snd (addNodes net (x # cs)))) = nat MICROFLO_MAX_NODES"
        using ih by (simp add: run)
    next
      fix j assume "j < unat ?a"
      then show "nodes (snd (addNodes net (x # cs))) ! j = nodes net ! j"
        using ih kept by (simp add: run)
    next
      fix i assume i: "i < length (x # cs)" "unat ?a + i < nat MICROFLO_MAX_NODES"
      show "fst (addNodes net (x # cs)) ! i = Inr (?a + of_nat i + 1)"
      proof (cases i)
        case 0
        then show ?thesis using free by (simp add: run)
      next
        case (Suc k)
        then have "k < length cs" "unat ?a + 1 + k < nat MICROFLO_MAX_NODES" using i by simp_all
        then have "fst (addNodes ?net1 cs) ! k = Inr (?a + 1 + of_nat k + 1)"
          using ih by blast
        then show ?thesis using Suc by (simp add: run add.commute add.left_commute)
      qed
    next
      fix i assume i: "i < length (x # cs)" "unat ?a + i < nat MICROFLO_MAX_NODES"
      show "nodes (snd (addNodes net (x # cs))) ! (unat ?a + i)
                = Some ((fst ((x # cs) ! i))\<lparr>nodeId := ?a + of_nat i + 1,
                                        parentNodeId := snd ((x # cs) ! i)\<rparr>)"
      proof (cases i)
        case 0
        have "nodes (snd (addNodes ?net1 cs)) ! unat ?a = nodes ?net1 ! unat ?a"
          using ih by simp
        moreover have "fst x = c" "snd x = p" by (simp_all add: x)
        ultimately show ?thesis using 0 slot by (simp add: run)
      next
        case (Suc k)
        then have k: "k < length cs" "unat ?a + 1 + k < nat MICROFLO_MAX_NODES" using i by simp_all
        then have "nodes (snd (addNodes ?net1 cs)) ! (unat ?a + 1 + k)
                = Some ((fst (cs ! k))\<lparr>nodeId := ?a + 1 + of_nat k + 1,
                                        parentNodeId := snd (cs ! k)\<rparr>)"
          using ih by blast
        then show ?thesis using Suc by (simp add: run add.commute add.left_commute)
      qed
    next
      fix i assume i: "i < length (x # cs)" "nat MICROFLO_MAX_NODES \<le> unat ?a + i"
      show "fst (addNodes net (x # cs)) ! i = Inl DebugNodeUpperLimitReached"
      proof (cases i)
        case 0
        then show ?thesis using i small by simp
      next
        case (Suc k)
        then have "k < length cs" "nat MICROFLO_MAX_NODES \<le> unat ?a + 1 + k" using i by simp_all
        then have "fst (addNodes ?net1 cs) ! k = Inl DebugNodeUpperLimitReached"
          using ih by blast
        then show ?thesis using Suc by (simp add: run)
      qed
    qed
  qed
qed


lemma unat_small_id:
  assumes "i < nat MICROFLO_MAX_NODES"
  shows "unat (of_nat (i + 1) :: NodeId) = i + 1"
proof -
  have "i + 1 < 2 ^ LENGTH(8)" using assms by (simp add: MICROFLO_MAX_NODES_def)
  then show ?thesis by (rule of_nat_inverse [OF refl])
qed

text \<open>
  C1. Starting from an empty node table, the \<open>i\<close>-th call of \<open>addNode\<close> (counting from 0)
  succeeds exactly while \<open>i\<close> is below \<open>MICROFLO_MAX_NODES\<close>. It then returns the id
  \<open>i + 1\<close>, the component is stored at index \<open>i\<close> with that id and the given parent
  bound, resolving the id (\<open>nodes[id - 1]\<close>) gives that entry, and the id differs from
  every id returned before. Since this holds for every continuation of the run, a node
  keeps its slot and id whatever is added later. Calls beyond the capacity fail with
  \<open>NodeUpperLimitReached\<close>.
\<close>

theorem addNode_ids_dense:
  assumes "lastAddedNodeIndex net = 0" and "length (nodes net) = nat MICROFLO_MAX_NODES"
  shows "\<forall>i < length cs.
     (i < nat MICROFLO_MAX_NODES \<longrightarrow>
        fst (addNodes net cs) ! i = Inr (of_nat (i + 1))
        \<and> unat (of_nat (i + 1) :: NodeId) = i + 1
        \<and> nodes (snd (addNodes net cs)) ! i
            = Some ((fst (cs ! i))\<lparr>nodeId := of_nat (i + 1), parentNodeId := snd (cs ! i)\<rparr>)
        \<and> resolve (snd (addNodes net cs)) (of_nat (i + 1)) = nodes (snd (addNodes net cs)) ! i
        \<and> (\<forall>j < i. fst (addNodes net cs) ! j \<noteq> fst (addNodes net cs) ! i))
     \<and> (nat MICROFLO_MAX_NODES \<le> i \<longrightarrow>
          fst (addNodes net cs) ! i = Inl DebugNodeUpperLimitReached)"
proof (intro allI impI)
  fix i assume i: "i < length cs"
  note run = addNodes_run [OF assms(2), of cs, unfolded assms(1)]
  have len: "length (nodes (snd (addNodes net cs))) = nat MICROFLO_MAX_NODES"
    using run by simp
  have ok: "fst (addNodes net cs) ! k = Inr (of_nat (k + 1))
            \<and> nodes (snd (addNodes net cs)) ! k
                = Some ((fst (cs ! k))\<lparr>nodeId := of_nat (k + 1), parentNodeId := snd (cs ! k)\<rparr>)"
    if "k < length cs" "k < nat MICROFLO_MAX_NODES" for k
    using run that by simp
  have full: "fst (addNodes net cs) ! k = Inl DebugNodeUpperLimitReached"
    if "k < length cs" "nat MICROFLO_MAX_NODES \<le> k" for k
    using run that by simp
  show "(i < nat MICROFLO_MAX_NODES \<longrightarrow>
        fst (addNodes net cs) ! i = Inr (of_nat (i + 1))
        \<and> unat (of_nat (i + 1) :: NodeId) = i + 1
        \<and> nodes (snd (addNodes net cs)) ! i
            = Some ((fst (cs ! i))\<lparr>nodeId := of_nat (i + 1), parentNodeId := snd (cs ! i)\<rparr>)
        \<and> resolve (snd (addNodes net cs)) (of_nat (i + 1)) = nodes (snd (addNodes net cs)) ! i
        \<and> (\<forall>j < i. fst (addNodes net cs) ! j \<noteq> fst (addNodes net cs) ! i))
     \<and> (nat MICROFLO_MAX_NODES \<le> i \<longrightarrow>
          fst (addNodes net cs) ! i = Inl DebugNodeUpperLimitReached)"
  proof (intro conjI impI allI)
    assume s: "i < nat MICROFLO_MAX_NODES"
    show "fst (addNodes net cs) ! i = Inr (of_nat (i + 1))" using ok [OF i s] by simp
    show "unat (of_nat (i + 1) :: NodeId) = i + 1" by (rule unat_small_id [OF s])
    show "nodes (snd (addNodes net cs)) ! i
            = Some ((fst (cs ! i))\<lparr>nodeId := of_nat (i + 1), parentNodeId := snd (cs ! i)\<rparr>)"
      using ok [OF i s] by simp
    show "resolve (snd (addNodes net cs)) (of_nat (i + 1)) = nodes (snd (addNodes net cs)) ! i"
    proof -
      have u: "unat (of_nat (i + 1) :: NodeId) = i + 1" by (rule unat_small_id [OF s])
      then have "(of_nat (i + 1) :: NodeId) \<noteq> 0" by (metis Suc_eq_plus1 nat.simps(3) unat_0)
      then show ?thesis using s by (simp only: resolve_def u len) simp
    qed
    fix j assume j: "j < i"
    then have js: "j < nat MICROFLO_MAX_NODES" "j < length cs" using s i by simp_all
    have "unat (of_nat (j + 1) :: NodeId) \<noteq> unat (of_nat (i + 1) :: NodeId)"
      using j by (simp only: unat_small_id [OF s] unat_small_id [OF js(1)])
    then have "(of_nat (j + 1) :: NodeId) \<noteq> of_nat (i + 1)" by metis
    then show "fst (addNodes net cs) ! j \<noteq> fst (addNodes net cs) ! i"
      using ok [OF i s] ok [OF js(2) js(1)] by simp
  next
    assume "nat MICROFLO_MAX_NODES \<le> i"
    then show "fst (addNodes net cs) ! i = Inl DebugNodeUpperLimitReached"
      using full i by simp
  qed
qed

theorem addNode_ids_dense_witness:
  "lastAddedNodeIndex (Network_new DebugLevelError :: unit Network) = 0
   \<and> length (nodes (Network_new DebugLevelError :: unit Network)) = nat MICROFLO_MAX_NODES
   \<and> fst (addNodes (Network_new DebugLevelError) [(Ticker, 0), (Sink, 1)]) = [Inr 1, Inr 2]
   \<and> nodes (snd (addNodes (Network_new DebugLevelError) [(Ticker, 0), (Sink, 1)])) ! 1
       = Some (Sink\<lparr>nodeId := 2, parentNodeId := 1\<rparr>)
   \<and> resolve (snd (addNodes (Network_new DebugLevelError) [(Ticker, 0), (Sink, 1)])) 2
       = Some (Sink\<lparr>nodeId := 2, parentNodeId := 1\<rparr>)"
proof -
  have h1: "lastAddedNodeIndex (Network_new DebugLevelError :: unit Network) = 0"
    by (simp add: Network_new_def)
  have h2: "length (nodes (Network_new DebugLevelError :: unit Network)) = nat MICROFLO_MAX_NODES"
    by (simp add: Network_new_def)
  have e: "fst (addNodes (Network_new DebugLevelError) [(Ticker, 0), (Sink, 1)]) = [Inr 1, Inr 2]"
    by code_simp
  have s: "1 < nat MICROFLO_MAX_NODES" by (simp add: MICROFLO_MAX_NODES_def)
  note t = addNode_ids_dense [OF h1 h2, of "[(Ticker, 0), (Sink, 1)]", THEN spec, of 1]
  show ?thesis using t s h1 h2 e by (simp del: addNodes.simps)
qed

subsection \<open>The message queue\<close>













text \<open>Delivering a message takes the head of the window; what the component sends is
  appended behind the rest.\<close>

lemma window_nodes_update [simp]:
  "window (net\<lparr>nodes := ns\<rparr>) = window net"
  by (simp add: window_def)

lemma queueShape_nodes_update [simp]:
  "queueShape (net\<lparr>nodes := ns\<rparr>) = queueShape net"
  by (simp add: queueShape_def)

lemma window_notify [simp]: "window (notify net n) = window net"
  by (simp add: window_def notify_def)

lemma queueShape_notify [simp]: "queueShape (notify net n) = queueShape net"
  by (simp add: queueShape_def notify_def)



















text \<open>
  The capacity on an example: 50 messages sent to an empty queue are all accepted and
  fill it; the 51st is refused with \<open>MessageQueueFull\<close> at the error level; \<open>runTick\<close> then
  delivers the 50 accepted messages in the order they were sent.
\<close>

lemma queue_capacity_example:
  "length (window (sendMany 50 observedSinkNet)) = 50
   \<and> queueFull (sendMany 50 observedSinkNet)
   \<and> \<not> queueFull (sendMany 49 observedSinkNet)
   \<and> window (sendMany 51 observedSinkNet) = window (sendMany 50 observedSinkNet)
   \<and> last (the (notificationHandler (sendMany 51 observedSinkNet)))
       = EmitDebug DebugLevelError DebugMessageQueueFull
   \<and> runTick 50 (sendMany 51 observedSinkNet) \<noteq> None
   \<and> delivered (the (notificationHandler (the (runTick 50 (sendMany 51 observedSinkNet)))))
       = window (sendMany 50 observedSinkNet)
   \<and> map pkg (window (sendMany 50 observedSinkNet)) = map (\<lambda>j. Packet_byte (of_nat j)) [0..<50]"
  by code_simp






subsection \<open>Command frames\<close>

lemma unat_small: "k < 8 \<Longrightarrow> unat (of_nat k :: 8 word) = k"
  by (simp add: unat_of_nat)

lemma accumulate:
  assumes "hc_state hc = ParseCmd" "currentByte hc = 0" "length (buffer hc) = MICROFLO_CMD_SIZE"
    and "length bs < MICROFLO_CMD_SIZE"
  shows "foldl (parseByte pc) hc bs
           = hc\<lparr>currentByte := of_nat (length bs),
                 buffer := bs @ drop (length bs) (buffer hc)\<rparr>"
  using assms(4)
proof (induction bs rule: rev_induct)
  case Nil
  then show ?case using assms by simp
next
  case (snoc b bs)
  let ?k = "length bs"
  have k: "?k < 7" using snoc.prems by (simp add: MICROFLO_CMD_SIZE_def)
  then have k8: "?k < 8" by simp
  have ih: "foldl (parseByte pc) hc bs
           = hc\<lparr>currentByte := of_nat ?k, buffer := bs @ drop ?k (buffer hc)\<rparr>"
    using snoc by simp
  have u: "unat (of_nat ?k :: 8 word) = ?k" by (rule unat_small [OF k8])
  have u1: "unat (of_nat ?k + 1 :: 8 word) = ?k + 1"
    using unat_small [of "Suc ?k"] k by (simp add: add.commute)
  have upd: "(bs @ drop ?k (buffer hc))[?k := b] = (bs @ [b]) @ drop (Suc ?k) (buffer hc)"
  proof -
    have "?k < length (buffer hc)" using assms(3) k by (simp add: MICROFLO_CMD_SIZE_def)
    then have "drop ?k (buffer hc) = buffer hc ! ?k # drop (Suc ?k) (buffer hc)"
      by (rule Cons_nth_drop_Suc [symmetric])
    then show ?thesis by (simp add: list_update_append)
  qed
  let ?mid = "hc\<lparr>currentByte := of_nat ?k, buffer := bs @ drop ?k (buffer hc)\<rparr>"
  have "foldl (parseByte pc) hc (bs @ [b]) = parseByte pc (foldl (parseByte pc) hc bs) b"
    by simp
  also have "\<dots> = parseByte pc ?mid b" by (simp only: ih)
  also have "\<dots> = hc\<lparr>currentByte := of_nat (length (bs @ [b])),
                 buffer := (bs @ [b]) @ drop (length (bs @ [b])) (buffer hc)\<rparr>"
    using k by (simp add: parseByte_def assms(1) u u1 upd Let_def MICROFLO_CMD_SIZE_def)
  finally show ?case .
qed

lemma dispatch:
  assumes "hc_state hc = ParseCmd" "currentByte hc = 0" "length (buffer hc) = MICROFLO_CMD_SIZE"
    and "length bs = MICROFLO_CMD_SIZE"
  shows "foldl (parseByte pc) hc bs
           = hc\<lparr>hc_network := snd (pc bs (hc_network hc)), currentByte := 0, buffer := bs,
                 hc_state := (if fst (pc bs (hc_network hc)) then ParseCmd else LookForHeader)\<rparr>"
proof -
  obtain bs' b where bs: "bs = bs' @ [b]"
    using assms(4) by (cases bs rule: rev_cases) (simp_all add: MICROFLO_CMD_SIZE_def)
  have l: "length bs' = 7" using assms(4) bs by (simp add: MICROFLO_CMD_SIZE_def)
  then have "length bs' < MICROFLO_CMD_SIZE" by (simp add: MICROFLO_CMD_SIZE_def)
  note acc = accumulate [OF assms(1-3) this, of pc]
  have u: "unat (of_nat (length bs') :: 8 word) = 7" using unat_small [of 7] l by simp
  have u1: "unat (of_nat (length bs') + 1 :: 8 word) = 8" using l by simp
  have upd: "(bs' @ drop 7 (buffer hc))[7 := b] = bs' @ [b]"
  proof -
    have "length (drop 7 (buffer hc)) = 1" using assms(3) by (simp add: MICROFLO_CMD_SIZE_def)
    then obtain x where "drop 7 (buffer hc) = [x]"
      by (cases "drop 7 (buffer hc)") simp_all
    then show ?thesis using l by (simp add: list_update_append)
  qed
  let ?mid = "hc\<lparr>currentByte := of_nat (length bs'),
                 buffer := bs' @ drop (length bs') (buffer hc)\<rparr>"
  have "foldl (parseByte pc) hc bs = parseByte pc (foldl (parseByte pc) hc bs') b"
    by (simp add: bs)
  also have "\<dots> = parseByte pc ?mid b" by (simp only: acc)
  also have "\<dots> = hc\<lparr>hc_network := snd (pc (bs' @ [b]) (hc_network hc)), currentByte := 0,
                 buffer := bs' @ [b],
                 hc_state := (if fst (pc (bs' @ [b]) (hc_network hc))
                              then ParseCmd else LookForHeader)\<rparr>"
    using l by (simp add: parseByte_def assms(1) u u1 upd Let_def MICROFLO_CMD_SIZE_def
        split_beta)
  finally show ?thesis by (simp add: bs)
qed


text \<open>A fresh parser that receives the magic header is ready for the first command.\<close>

lemma parser_accepts_header:
  "foldl (parseByte pc) (HostCommunication_new net) (map magicByte [0..<length gMagic])
     = (HostCommunication_new net)\<lparr>hc_state := ParseCmd\<rparr>"
  by (simp add: parseByte_def HostCommunication_new_def magicByte_def gMagic_def
      upt_rec [of 0] upt_rec [of "Suc _"])

text \<open>
  C4. \<open>MICROFLO_CMD_SIZE\<close> is 1 + 7 = 8. A parser in \<open>ParseCmd\<close> at the start of a frame
  that has received fewer than 8 bytes has only stored them in its buffer: \<open>parseCmd\<close>
  has not run and the network is untouched. With the 8th byte \<open>parseCmd\<close> runs once, on
  exactly these 8 bytes (the opcode and 7 payload bytes), and the byte counter is back
  at 0 for the next frame. An outgoing frame of an opcode and at most 7 argument bytes,
  padded by \<open>padCommandWithNArguments\<close>, is 8 bytes long.
\<close>

theorem command_frame_is_eight_bytes:
  assumes "hc_state hc = ParseCmd" and "currentByte hc = 0"
    and "length (buffer hc) = MICROFLO_CMD_SIZE"
  shows "MICROFLO_CMD_SIZE = 8
    \<and> (length bs < MICROFLO_CMD_SIZE \<longrightarrow>
         hc_network (foldl (parseByte pc) hc bs) = hc_network hc
         \<and> hc_state (foldl (parseByte pc) hc bs) = ParseCmd
         \<and> unat (currentByte (foldl (parseByte pc) hc bs)) = length bs
         \<and> take (length bs) (buffer (foldl (parseByte pc) hc bs)) = bs
         \<and> length (buffer (foldl (parseByte pc) hc bs)) = MICROFLO_CMD_SIZE)
    \<and> (length bs = MICROFLO_CMD_SIZE \<longrightarrow>
         foldl (parseByte pc) hc bs
           = hc\<lparr>hc_network := snd (pc bs (hc_network hc)), currentByte := 0, buffer := bs,
                 hc_state := (if fst (pc bs (hc_network hc)) then ParseCmd else LookForHeader)\<rparr>
         \<and> bs = hd bs # tl bs \<and> length (tl bs) = 7)
    \<and> (length args \<le> 7 \<longrightarrow>
         padCommandWithNArguments (sent @ opcode # args) (int (length args))
           = sent @ opcode # args @ replicate (7 - length args) 0
         \<and> length (opcode # args @ replicate (7 - length args) 0) = MICROFLO_CMD_SIZE)"
proof (intro conjI impI)
  show "MICROFLO_CMD_SIZE = 8" by (simp add: MICROFLO_CMD_SIZE_def)
next
  assume short: "length bs < MICROFLO_CMD_SIZE"
  note acc = accumulate [OF assms short, of pc]
  have l8: "length bs < 8" using short by (simp add: MICROFLO_CMD_SIZE_def)
  show "hc_network (foldl (parseByte pc) hc bs) = hc_network hc" by (simp add: acc)
  show "hc_state (foldl (parseByte pc) hc bs) = ParseCmd" by (simp add: acc assms(1))
  show "unat (currentByte (foldl (parseByte pc) hc bs)) = length bs"
    by (simp add: acc unat_small [OF l8])
  show "take (length bs) (buffer (foldl (parseByte pc) hc bs)) = bs" by (simp add: acc)
  show "length (buffer (foldl (parseByte pc) hc bs)) = MICROFLO_CMD_SIZE"
    using short assms(3) by (simp add: acc)
next
  assume full: "length bs = MICROFLO_CMD_SIZE"
  show "foldl (parseByte pc) hc bs
           = hc\<lparr>hc_network := snd (pc bs (hc_network hc)), currentByte := 0, buffer := bs,
                 hc_state := (if fst (pc bs (hc_network hc)) then ParseCmd else LookForHeader)\<rparr>"
    by (rule dispatch [OF assms full])
  show "bs = hd bs # tl bs" using full by (cases bs) (simp_all add: MICROFLO_CMD_SIZE_def)
  show "length (tl bs) = 7" using full by (simp add: MICROFLO_CMD_SIZE_def)
next
  assume "length args \<le> 7"
  then show "padCommandWithNArguments (sent @ opcode # args) (int (length args))
           = sent @ opcode # args @ replicate (7 - length args) 0"
    by (simp add: padCommandWithNArguments_def nat_diff_distrib')
next
  assume "length args \<le> 7"
  then show "length (opcode # args @ replicate (7 - length args) 0) = MICROFLO_CMD_SIZE"
    by (simp add: MICROFLO_CMD_SIZE_def)
qed

theorem command_frame_is_eight_bytes_witness:
  "hc_state readyParser = ParseCmd \<and> currentByte readyParser = 0
   \<and> length (buffer readyParser) = MICROFLO_CMD_SIZE
   \<and> hc_network (foldl (parseByte recordFrame) readyParser [1, 2, 3, 4, 5, 6, 7]) = []
   \<and> hc_network (foldl (parseByte recordFrame) readyParser [1, 2, 3, 4, 5, 6, 7, 8])
       = [ [1, 2, 3, 4, 5, 6, 7, 8] ]
   \<and> hc_state (foldl (parseByte recordFrame) readyParser [1, 2, 3, 4, 5, 6, 7, 8]) = ParseCmd
   \<and> padCommandWithNArguments [9, 1, 2] 2 = [9, 1, 2, 0, 0, 0, 0, 0]"
proof -
  have h: "hc_state readyParser = ParseCmd" "currentByte readyParser = 0"
    "length (buffer readyParser) = MICROFLO_CMD_SIZE"
    by (simp_all add: readyParser_def HostCommunication_new_def)
  have n: "hc_network readyParser = []"
    by (simp add: readyParser_def HostCommunication_new_def)
  note t7 = command_frame_is_eight_bytes
              [OF h, of "[1, 2, 3, 4, 5, 6, 7]" recordFrame "[1, 2]" "[]" 9]
  note t8 = command_frame_is_eight_bytes
              [OF h, of "[1, 2, 3, 4, 5, 6, 7, 8]" recordFrame "[1, 2]" "[]" 9]
  have a: "hc_network (foldl (parseByte recordFrame) readyParser [1, 2, 3, 4, 5, 6, 7]) = []"
    using t7 n by (simp add: MICROFLO_CMD_SIZE_def del: foldl_Cons)
  have b: "foldl (parseByte recordFrame) readyParser [1, 2, 3, 4, 5, 6, 7, 8]
       = readyParser\<lparr>hc_network := snd (recordFrame [1, 2, 3, 4, 5, 6, 7, 8] (hc_network readyParser)),
           currentByte := 0, buffer := [1, 2, 3, 4, 5, 6, 7, 8],
           hc_state := (if fst (recordFrame [1, 2, 3, 4, 5, 6, 7, 8] (hc_network readyParser))
                        then ParseCmd else LookForHeader)\<rparr>"
    using t8 by (simp add: MICROFLO_CMD_SIZE_def del: foldl_Cons)
  have c: "padCommandWithNArguments [9, 1, 2] 2 = [9, 1, 2, 0, 0, 0, 0, 0]"
    using t8 by (simp add: numeral_eq_Suc)
  show ?thesis using h a c by (simp add: b n recordFrame_def del: foldl_Cons)
qed

end
